theory Spec2Isabelle
  imports Main "HOL-Library.Word"
begin

section \<open>Data model of dml\_scan\_ops.cc\<close>

text \<open>
  The kernels Cumsum and Cumprod of \<^verbatim>\<open>tensorflow/core/kernels/dml_scan_ops.cc\<close>.
  C++ \<^verbatim>\<open>int\<close> and \<^verbatim>\<open>int32\<close> are 32-bit words, \<^verbatim>\<open>int64\<close> is a 64-bit word;
  \<open>sint\<close> reads a word as the signed value the C++ variable holds, \<open>scast\<close> is the
  sign-extending conversion of a narrower signed integer to a wider one, and \<open>ucast\<close>
  to a narrower type keeps the low bits (the narrowing conversion). Arithmetic wraps.
\<close>

type_synonym int32 = "32 word"
type_synonym int64 = "64 word"

text \<open>A TensorShape is the ordered sequence of its dimension sizes, each an \<^verbatim>\<open>int64\<close>.\<close>

type_synonym TensorShape = "int64 list"

text \<open>
  Modelled from the spec: \<^verbatim>\<open>TensorShape::dims()\<close> (tensor\_shape.h is not part of the
  sources). The spec's data model: rank = sequence length. The C++ result type is
  \<^verbatim>\<open>int\<close>.
\<close>

definition dims :: "TensorShape \<Rightarrow> int32" where
  "dims s = word_of_nat (length s)"

text \<open>
  Modelled from the spec: \<^verbatim>\<open>TensorShape::dim_size(int d)\<close> (tensor\_shape.h is not part
  of the sources) returns the \<open>d\<close>-th dimension size as an \<^verbatim>\<open>int64\<close>. An index outside
  \<open>[0, rank)\<close> has no defined result in the source; the model returns \<open>None\<close> there.
\<close>

definition dim_size :: "TensorShape \<Rightarrow> int32 \<Rightarrow> int64 option" where
  "dim_size s d =
     (if 0 \<le> sint d \<and> nat (sint d) < length s then Some (s ! nat (sint d)) else None)"

text \<open>
  Modelled from the spec: \<^verbatim>\<open>TensorShapeUtils::IsScalar\<close> (not part of the sources). The
  spec: a scalar container is one of rank 0.
\<close>

definition IsScalar :: "TensorShape \<Rightarrow> bool" where
  "IsScalar s = (dims s = 0)"

text \<open>
  The status codes of \<^verbatim>\<open>tensorflow::errors\<close> that the source and its specification
  name. The source builds its two errors with \<^verbatim>\<open>errors::InvalidArgument\<close>.
\<close>

datatype Code = INVALID_ARGUMENT | OUT_OF_RANGE

text \<open>
  The template parameter \<^verbatim>\<open>Tidx\<close> is instantiated by the kernel registrations with
  \<^verbatim>\<open>int32\<close> and with \<^verbatim>\<open>int64\<close>; a value of the axis tensor carries its width.
\<close>

datatype Tidx = Tidx_int32 int32 | Tidx_int64 int64

text \<open>
  What the constructor of \<^verbatim>\<open>ScanInitHelper\<close> reads from its \<^verbatim>\<open>OpKernelContext\<close>: the
  shape of input 0, the shape of input 1 (\<^verbatim>\<open>tensor_axis\<close>), and the element that
  \<^verbatim>\<open>tensor_axis.scalar<Tidx>()()\<close> reads.
\<close>

record OpKernelContext =
  input_shape :: TensorShape
  tensor_axis_shape :: TensorShape
  tensor_axis_scalar :: Tidx

record Attributes =
  reverse :: bool
  exclusive :: bool

text \<open>
  The members \<^verbatim>\<open>attr_\<close> and \<^verbatim>\<open>axis_\<close> of the class (a name cannot end in an
  underscore here).
\<close>

record ScanInitHelper =
  attr_member :: Attributes
  axis_member :: int64

text \<open>
  Modelled from the spec: \<^verbatim>\<open>internal::SubtleMustCopy\<close> (bounds\_check.h is not part of
  the sources): the scalar is read with a copy; the value is unchanged.
\<close>

definition SubtleMustCopy :: "Tidx \<Rightarrow> Tidx" where
  "SubtleMustCopy x = x"

text \<open>
  Modelled from the spec: \<^verbatim>\<open>FastBoundsCheck(index, limit)\<close> (bounds\_check.h is not part
  of the sources). The spec: the check passes exactly when the index is in \<open>[0, limit)\<close>.
\<close>

definition FastBoundsCheck :: "int64 \<Rightarrow> int32 \<Rightarrow> bool" where
  "FastBoundsCheck index limit = (0 \<le> sint index \<and> sint index < sint limit)"

text \<open>
  Line 50: \<^verbatim>\<open>axis_ = (axis_arg < 0) ? input.dims() + axis_arg : axis_arg\<close>. With
  \<^verbatim>\<open>Tidx = int32\<close> the conditional expression has type \<^verbatim>\<open>int\<close> and is widened by the
  assignment to the \<^verbatim>\<open>int64\<close> member; with \<^verbatim>\<open>Tidx = int64\<close> the rank is widened before
  the addition.
\<close>

fun effective_axis :: "int32 \<Rightarrow> Tidx \<Rightarrow> int64" where
  "effective_axis input_dims (Tidx_int32 axis_arg) =
     scast (if axis_arg <s 0 then input_dims + axis_arg else axis_arg)"
| "effective_axis input_dims (Tidx_int64 axis_arg) =
     (if axis_arg <s 0 then scast input_dims + axis_arg else axis_arg)"

text \<open>
  The constructor of \<^verbatim>\<open>ScanInitHelper\<close> (lines 39-55). \<^verbatim>\<open>OP_REQUIRES\<close> records the
  error status in the context and returns from the constructor: the result \<open>Inl\<close>.
\<close>

definition ScanInitHelper_ctor :: "OpKernelContext \<Rightarrow> Attributes \<Rightarrow> Code + ScanInitHelper" where
  "ScanInitHelper_ctor ctx attr =
     (if \<not> IsScalar (tensor_axis_shape ctx) then Inl INVALID_ARGUMENT
      else
        let axis_arg = SubtleMustCopy (tensor_axis_scalar ctx);
            axis = effective_axis (dims (input_shape ctx)) axis_arg
        in if \<not> FastBoundsCheck axis (dims (input_shape ctx)) then Inl INVALID_ARGUMENT
           else Inr \<lparr>attr_member = attr, axis_member = axis\<rparr>)"

definition IsReverse :: "ScanInitHelper \<Rightarrow> bool" where
  "IsReverse h = reverse (attr_member h)"

definition IsExclusive :: "ScanInitHelper \<Rightarrow> bool" where
  "IsExclusive h = exclusive (attr_member h)"

definition GetAxis :: "ScanInitHelper \<Rightarrow> int64" where
  "GetAxis h = axis_member h"

section \<open>The kernel constructor\<close>

datatype DML_AXIS_DIRECTION = DML_AXIS_DIRECTION_INCREASING | DML_AXIS_DIRECTION_DECREASING

datatype ScanFunctor = CumsumFunctor | CumprodFunctor

text \<open>
  Lines 84-87: \<^verbatim>\<open>for (int i = 0; i < axis; ++i) left_dim_size *= dim_size(i)\<close>. The
  counter and the accumulator are \<^verbatim>\<open>int\<close>, the axis and the dimension size are
  \<^verbatim>\<open>int64\<close>: the comparison widens the counter, the product is taken in 64 bits and
  narrowed back to the accumulator.
\<close>

function left_loop :: "TensorShape \<Rightarrow> int64 \<Rightarrow> int32 \<Rightarrow> int32 \<Rightarrow> int32 option" where
  "left_loop s axis i left_dim_size =
     (if scast i <s axis then
        (case dim_size s i of
           None \<Rightarrow> None
         | Some d \<Rightarrow> left_loop s axis (i + 1) (ucast ((scast left_dim_size :: int64) * d)))
      else Some left_dim_size)"
  by pat_completeness auto

text \<open>
  Lines 89-92: \<^verbatim>\<open>for (int i = axis + 1; i < original_input_shape.dims(); ++i)
  right_dim_size *= dim_size(i)\<close>. Here the counter is compared with an \<^verbatim>\<open>int\<close>.
\<close>

function right_loop :: "TensorShape \<Rightarrow> int32 \<Rightarrow> int32 \<Rightarrow> int32 option" where
  "right_loop s i right_dim_size =
     (if i <s dims s then
        (case dim_size s i of
           None \<Rightarrow> None
         | Some d \<Rightarrow> right_loop s (i + 1) (ucast ((scast right_dim_size :: int64) * d)))
      else Some right_dim_size)"
  by pat_completeness auto

text \<open>
  Lines 84-94, the collapse of the dimensions: the left loop, the right loop, then
  \<^verbatim>\<open>int axis_dim_size = original_input_shape.dim_size(axis)\<close>. The \<^verbatim>\<open>int64\<close> axis is
  narrowed to the \<^verbatim>\<open>int\<close> counter and to the \<^verbatim>\<open>int\<close> parameter of \<^verbatim>\<open>dim_size\<close>, and
  the \<^verbatim>\<open>int64\<close> dimension size is narrowed to \<^verbatim>\<open>int\<close>. The result is
  \<open>(left_dim_size, axis_dim_size, right_dim_size)\<close>; \<open>None\<close> when a call of
  \<^verbatim>\<open>dim_size\<close> is out of range.
\<close>

definition collapse :: "TensorShape \<Rightarrow> int64 \<Rightarrow> (int32 \<times> int32 \<times> int32) option" where
  "collapse original_input_shape axis =
     (case left_loop original_input_shape axis 0 1 of
        None \<Rightarrow> None
      | Some left_dim_size \<Rightarrow>
          (case right_loop original_input_shape (ucast (axis + 1)) 1 of
             None \<Rightarrow> None
           | Some right_dim_size \<Rightarrow>
               (case dim_size original_input_shape (ucast axis) of
                  None \<Rightarrow> None
                | Some d \<Rightarrow> Some (left_dim_size, ucast d, right_dim_size))))"

text \<open>
  What the constructor of \<^verbatim>\<open>DmlScanKernel\<close> hands to the backend: the shape of the input
  and output tensor descriptions and the arguments of the scan functor.
\<close>

record DmlScanKernel =
  tensor_shape :: TensorShape
  scan_op :: ScanFunctor
  dml_axis :: "32 word"
  axis_direction :: DML_AXIS_DIRECTION
  has_exclusive :: bool

text \<open>
  Modelled from the spec: the constructor \<^verbatim>\<open>TensorShape(dim_sizes)\<close> (tensor\_shape.h is not
  part of the sources). The spec's data model: a TensorShape is an ordered sequence of
  non-negative dimension sizes. The constructor therefore yields a shape only from sizes
  none of which is negative; a negative size is rejected and no shape exists.
\<close>

definition non_negative :: "int64 list \<Rightarrow> bool" where
  "non_negative dim_sizes = list_all (\<lambda>d. 0 \<le> sint d) dim_sizes"

definition TensorShape_ctor :: "int64 list \<Rightarrow> TensorShape option" where
  "TensorShape_ctor dim_sizes = (if non_negative dim_sizes then Some dim_sizes else None)"

text \<open>
  How the work on one invocation can end without a result: with the status an
  \<^verbatim>\<open>OP_REQUIRES\<close> of the initialization helper recorded, in a \<^verbatim>\<open>dim_size\<close> call outside the
  shape, or in the TensorShape constructor of line 96 rejecting a negative size.
\<close>

datatype failure = Aborted Code | DimSizeOutOfRange | NegativeDimSize

text \<open>
  The constructor of \<^verbatim>\<open>DmlScanKernel\<close> (lines 71-127). Line 96 builds
  \<^verbatim>\<open>TensorShape({1, left_dim_size, axis_dim_size, right_dim_size})\<close>: the three \<^verbatim>\<open>int\<close>
  values are widened to \<^verbatim>\<open>int64\<close> and handed to the TensorShape constructor, which
  rejects a size that wrapped to a negative \<^verbatim>\<open>int\<close>.
\<close>

definition DmlScanKernel_ctor ::
  "ScanFunctor \<Rightarrow> TensorShape \<Rightarrow> ScanInitHelper \<Rightarrow> failure + DmlScanKernel" where
  "DmlScanKernel_ctor scan_functor original_input_shape init_helper =
     (let axis = GetAxis init_helper;
          direction = (if IsReverse init_helper then DML_AXIS_DIRECTION_DECREASING
                       else DML_AXIS_DIRECTION_INCREASING)
      in case collapse original_input_shape axis of
           None \<Rightarrow> Inl DimSizeOutOfRange
         | Some (left_dim_size, axis_dim_size, right_dim_size) \<Rightarrow>
             (case TensorShape_ctor
                     [1, scast left_dim_size, scast axis_dim_size, scast right_dim_size] of
                None \<Rightarrow> Inl NegativeDimSize
              | Some shape \<Rightarrow>
                  Inr \<lparr>tensor_shape = shape,
                        scan_op = scan_functor,
                        dml_axis = 2,
                        axis_direction = direction,
                        has_exclusive = IsExclusive init_helper\<rparr>))"

section \<open>One invocation of a registered kernel\<close>

text \<open>
  Modelled from the spec: \<^verbatim>\<open>GetOutputShapeAsInputShapeHelper\<close> (dml\_ops\_common.h is not
  part of the sources). The spec: the output shape of the node equals its input shape.
\<close>

definition GetOutputShapeAsInputShapeHelper :: "OpKernelContext \<Rightarrow> TensorShape" where
  "GetOutputShapeAsInputShapeHelper ctx = input_shape ctx"

record Invocation =
  kernel :: DmlScanKernel
  output_shape :: TensorShape

text \<open>
  Modelled from the spec: \<^verbatim>\<open>DmlKernelWrapper<DmlScanKernel<Tidx, ScanFunctor>,
  GetOutputShapeAsInputShapeHelper>\<close> (dml\_kernel\_wrapper.h is not part of the sources).
  The spec: the attributes and the axis are parsed once per invocation; a validation
  failure is surfaced to the caller and aborts the invocation; otherwise the kernel is
  built from the validated axis, and when that succeeds the output takes the shape the
  shape helper gives.
\<close>

definition DmlKernelWrapper :: "ScanFunctor \<Rightarrow> OpKernelContext \<Rightarrow> Attributes \<Rightarrow> failure + Invocation" where
  "DmlKernelWrapper scan_functor ctx attr =
     (case ScanInitHelper_ctor ctx attr of
        Inl status \<Rightarrow> Inl (Aborted status)
      | Inr init_helper \<Rightarrow>
          (case DmlScanKernel_ctor scan_functor (input_shape ctx) init_helper of
             Inl f \<Rightarrow> Inl f
           | Inr k \<Rightarrow> Inr \<lparr>kernel = k, output_shape = GetOutputShapeAsInputShapeHelper ctx\<rparr>))"

text \<open>
  The registered kernels (lines 148-194): Cumsum and Cumprod, each with \<^verbatim>\<open>Tidx = int32\<close> and
  with \<^verbatim>\<open>Tidx = int64\<close>; the axis value in the context carries the width.
\<close>

definition Cumsum :: "OpKernelContext \<Rightarrow> Attributes \<Rightarrow> failure + Invocation" where
  "Cumsum = DmlKernelWrapper CumsumFunctor"

definition Cumprod :: "OpKernelContext \<Rightarrow> Attributes \<Rightarrow> failure + Invocation" where
  "Cumprod = DmlKernelWrapper CumprodFunctor"

section \<open>The quantities the specification names\<close>

text \<open>
  The specification's words, over the signed values of the dimension sizes:
  \<open>total_elements\<close> is the product of all dimension sizes, \<open>spec_left_size\<close> the product
  of \<open>dims[0 .. k)\<close>, \<open>spec_axis_size\<close> is \<open>dims[k]\<close>, \<open>spec_right_size\<close> the product of
  \<open>dims[k+1 .. R)\<close>; an empty product is 1.
\<close>

definition total_elements :: "TensorShape \<Rightarrow> int" where
  "total_elements s = prod_list (map sint s)"

definition spec_left_size :: "TensorShape \<Rightarrow> nat \<Rightarrow> int" where
  "spec_left_size s k = prod_list (map sint (take k s))"

definition spec_axis_size :: "TensorShape \<Rightarrow> nat \<Rightarrow> int" where
  "spec_axis_size s k = sint (s ! k)"

definition spec_right_size :: "TensorShape \<Rightarrow> nat \<Rightarrow> int" where
  "spec_right_size s k = prod_list (map sint (drop (Suc k) s))"

text \<open>The signed value of the scalar the axis tensor holds, at either width.\<close>

fun axis_value :: "Tidx \<Rightarrow> int" where
  "axis_value (Tidx_int32 axis_arg) = sint axis_arg"
| "axis_value (Tidx_int64 axis_arg) = sint axis_arg"

text \<open>
  The specification's axis resolver, over the integers: \<open>effective = rank + axis_arg\<close> when
  \<open>axis_arg < 0\<close>, and \<open>axis_arg\<close> otherwise.
\<close>

definition spec_resolve :: "int \<Rightarrow> int \<Rightarrow> int" where
  "spec_resolve a R = (if a < 0 then R + a else a)"

text \<open>
  The values a C++ \<^verbatim>\<open>int\<close> holds, and the \<^verbatim>\<open>int\<close> that keeps the low 32 bits of an integer
  (its reduction modulo \<open>2^32\<close> into the signed range).
\<close>

definition fits_int32 :: "int \<Rightarrow> bool" where
  "fits_int32 x = (- 2147483648 \<le> x \<and> x < 2147483648)"


section \<open>Termination of the two loops\<close>

text \<open>
  The left loop compares its \<^verbatim>\<open>int\<close> counter with an \<^verbatim>\<open>int64\<close> bound, which the counter
  may never reach: the loop then ends in the \<^verbatim>\<open>dim_size\<close> call that leaves the shape, at the
  latest when the counter wraps to a negative index. The right loop counts up to an
  \<^verbatim>\<open>int\<close> bound.
\<close>

lemma sint_int32_range: "- 2147483648 \<le> sint (w :: int32) \<and> sint w < 2147483648"
  using sint_greater_eq [of w] sint_less [of w] by simp

lemma sint_word_of_int_32:
  "- 2147483648 \<le> x \<Longrightarrow> x < 2147483648 \<Longrightarrow> sint (word_of_int x :: int32) = x"
  by (simp add: signed_of_int signed_take_bit_int_eq_self)

lemma sint_succ_32:
  assumes "sint (i :: int32) < 2147483647"
  shows "sint (i + 1) = sint i + 1"
proof -
  have "word_of_int (sint i + 1) = (word_of_int (sint i) + word_of_int 1 :: int32)"
    by (simp only: wi_hom_add)
  then have eq: "(word_of_int (sint i + 1) :: int32) = i + 1"
    by simp
  have "sint (word_of_int (sint i + 1) :: int32) = sint i + 1"
    using assms sint_int32_range [of i] by (intro sint_word_of_int_32) simp_all
  then show ?thesis by (simp only: eq)
qed

lemma sint_succ_32_wraps:
  assumes "0 \<le> sint (i :: int32)" and "\<not> sint i < 2147483647"
  shows "sint (i + 1) < 0"
proof -
  have "sint i = 2147483647"
    using assms sint_int32_range [of i] by simp
  then have "word_of_int (sint i) = (word_of_int 2147483647 :: int32)"
    by simp
  then have "i = 2147483647"
    by simp
  then show ?thesis by simp
qed

termination left_loop
proof (relation "measure (\<lambda>(s, axis, i, acc). if sint i < 0 then 0 else nat (2147483648 - sint i))")
  show "wf (measure (\<lambda>(s, axis, i, acc). if sint i < 0 then 0 else nat (2147483648 - sint i)))"
    by simp
next
  fix s :: TensorShape and axis :: int64 and i left_dim_size :: int32 and d :: int64
  assume "dim_size s i = Some d"
  then have nonneg: "0 \<le> sint i"
    by (simp add: dim_size_def split: if_splits)
  show "((s, axis, i + 1, ucast (scast left_dim_size * d)), (s, axis, i, left_dim_size))
      \<in> measure (\<lambda>(s, axis, i, acc). if sint i < 0 then 0 else nat (2147483648 - sint i))"
  proof (cases "sint i < 2147483647")
    case True
    then show ?thesis using nonneg by (simp add: sint_succ_32)
  next
    case False
    then have "sint (i + 1) < 0" using nonneg by (rule sint_succ_32_wraps [rotated])
    then show ?thesis using nonneg sint_int32_range [of i] by simp
  qed
qed

termination right_loop
proof (relation "measure (\<lambda>(s, i, acc). nat (sint (dims s) - sint i))")
  show "wf (measure (\<lambda>(s, i, acc). nat (sint (dims s) - sint i)))"
    by simp
next
  fix s :: TensorShape and i right_dim_size :: int32 and d :: int64
  assume "i <s dims s"
  then have lt: "sint i < sint (dims s)"
    by (simp add: word_sless_alt)
  then have "sint i < 2147483647"
    using sint_int32_range [of "dims s"] by simp
  then have "sint (i + 1) = sint i + 1"
    by (rule sint_succ_32)
  then show "((s, i + 1, ucast (scast right_dim_size * d)), (s, i, right_dim_size))
      \<in> measure (\<lambda>(s, i, acc). nat (sint (dims s) - sint i))"
    using lt by simp
qed

section \<open>Conversions between the integer types\<close>

lemma sint_of_nat_32: "n < 2147483648 \<Longrightarrow> sint (word_of_nat n :: int32) = int n"
  using sint_word_of_int_32 [of "int n"] by simp

lemma sint_word_of_int_64:
  "- 9223372036854775808 \<le> x \<Longrightarrow> x < 9223372036854775808 \<Longrightarrow> sint (word_of_int x :: int64) = x"
  by (simp add: signed_of_int signed_take_bit_int_eq_self)

lemma sint_of_nat_64: "n < 2147483648 \<Longrightarrow> sint (word_of_nat n :: int64) = int n"
  using sint_word_of_int_64 [of "int n"] by simp

lemma sint_scast_32_64: "sint (scast (x :: int32) :: int64) = sint x"
  by (rule sint_up_scast) (simp add: is_up)

lemma ucast_64_32_wi: "(ucast (word_of_int x :: int64) :: int32) = word_of_int x"
  by (rule ucast_down_wi) (simp add: is_down)

lemma ucast_64_32_of_nat: "(ucast (word_of_nat n :: int64) :: int32) = word_of_nat n"
  using ucast_64_32_wi [of "int n"] by simp

lemma ucast_64_32_sint: "(ucast (d :: int64) :: int32) = word_of_int (sint d)"
proof -
  have "(ucast (word_of_int (sint d) :: int64) :: int32) = word_of_int (sint d)"
    by (rule ucast_64_32_wi)
  then show ?thesis by simp
qed

lemma narrow_mult:
  "(ucast ((scast (acc :: int32) :: int64) * d) :: int32) = acc * word_of_int (sint d)"
proof -
  have a: "(scast acc :: int64) = word_of_int (sint acc)"
    by (rule scast_eq)
  have d: "d = word_of_int (sint d)"
    by simp
  have "(scast acc :: int64) * d = word_of_int (sint acc) * word_of_int (sint d)"
    using a d by simp
  then have "(scast acc :: int64) * d = word_of_int (sint acc * sint d)"
    by (simp only: wi_hom_mult)
  then have "(ucast ((scast acc :: int64) * d) :: int32) = word_of_int (sint acc * sint d)"
    by (simp only: ucast_64_32_wi)
  also have "\<dots> = word_of_int (sint acc) * word_of_int (sint d)"
    by (simp only: wi_hom_mult)
  finally show ?thesis by simp
qed

lemma dim_size_of_nat:
  "j < length s \<Longrightarrow> j < 2147483648 \<Longrightarrow> dim_size s (word_of_nat j) = Some (s ! j)"
  by (simp add: dim_size_def sint_of_nat_32)

lemma prod_take_drop_step:
  assumes "j < k" "k \<le> length s"
  shows "prod_list (map sint (take (k - j) (drop j s)))
       = sint (s ! j) * prod_list (map sint (take (k - Suc j) (drop (Suc j) s)))"
proof -
  have "drop j s = s ! j # drop (Suc j) s"
    using assms by (simp add: Cons_nth_drop_Suc)
  moreover have "k - j = Suc (k - Suc j)"
    using assms by simp
  ultimately show ?thesis by simp
qed

lemma left_loop_prod:
  assumes "j \<le> k" "k \<le> length s" "k < 2147483648"
  shows "left_loop s (word_of_nat k) (word_of_nat j) acc
       = Some (acc * word_of_int (prod_list (map sint (take (k - j) (drop j s)))))"
  using assms
proof (induction "k - j" arbitrary: j acc)
  case 0
  then have "j = k" by simp
  then have "\<not> scast (word_of_nat j :: int32) <s (word_of_nat k :: int64)"
    using "0.prems" by (simp add: word_sless_alt sint_scast_32_64 sint_of_nat_32 sint_of_nat_64)
  then show ?case using \<open>j = k\<close> by (subst left_loop.simps) simp
next
  case (Suc n)
  then have jk: "j < k" by simp
  then have j31: "j < 2147483648" and jlen: "j < length s"
    using Suc.prems by simp_all
  have cond: "scast (word_of_nat j :: int32) <s (word_of_nat k :: int64)"
    using jk Suc.prems j31 by (simp add: word_sless_alt sint_scast_32_64 sint_of_nat_32 sint_of_nat_64)
  have ds: "dim_size s (word_of_nat j) = Some (s ! j)"
    using jlen j31 by (rule dim_size_of_nat)
  have next_i: "(word_of_nat j :: int32) + 1 = word_of_nat (Suc j)"
    by simp
  have IH: "left_loop s (word_of_nat k) (word_of_nat (Suc j)) (acc * word_of_int (sint (s ! j)))
       = Some (acc * word_of_int (sint (s ! j))
               * word_of_int (prod_list (map sint (take (k - Suc j) (drop (Suc j) s)))))"
    using Suc.hyps(2) jk Suc.prems by (intro Suc.hyps(1)) simp_all
  have "left_loop s (word_of_nat k) (word_of_nat j) acc
      = left_loop s (word_of_nat k) (word_of_nat (Suc j)) (acc * word_of_int (sint (s ! j)))"
    by (subst left_loop.simps) (simp only: cond ds next_i narrow_mult if_True option.case)
  also note IH
  finally show ?case
    using prod_take_drop_step [OF jk Suc.prems(2)]
    by (simp add: mult.assoc flip: wi_hom_mult)
qed

lemma sint_dims: "length s < 2147483648 \<Longrightarrow> sint (dims s) = int (length s)"
  by (simp add: dims_def sint_of_nat_32)

lemma sint_dims_le_length: "sint (dims s) \<le> int (length s)"
proof -
  have "sint (dims s) = (int (length s) + 2147483648) mod 4294967296 - 2147483648"
    using int_word_sint [where 'a = 32, of "int (length s)"] by (simp add: dims_def)
  moreover have "(int (length s) + 2147483648) mod 4294967296 \<le> int (length s) + 2147483648"
    by (rule zmod_le_nonneg_dividend) simp
  ultimately show ?thesis by simp
qed

lemma right_loop_prod:
  assumes "sint (dims s) = int N" "j \<le> N"
  shows "right_loop s (word_of_nat j) acc
       = Some (acc * word_of_int (prod_list (map sint (take (N - j) (drop j s)))))"
  using assms
proof (induction "N - j" arbitrary: j acc)
  case 0
  then have "j = N" by simp
  moreover have "N < 2147483648"
    using sint_int32_range [of "dims s"] "0.prems" by simp
  ultimately have "\<not> (word_of_nat j :: int32) <s dims s"
    using "0.prems" by (simp add: word_sless_alt sint_of_nat_32)
  then show ?case using \<open>j = N\<close> by (subst right_loop.simps) simp
next
  case (Suc n)
  have N31: "N < 2147483648"
    using sint_int32_range [of "dims s"] Suc.prems by simp
  have Nlen: "N \<le> length s"
    using sint_dims_le_length [of s] Suc.prems by simp
  from Suc have jN: "j < N" by simp
  then have j31: "j < 2147483648" and jlen: "j < length s"
    using N31 Nlen by simp_all
  have cond: "(word_of_nat j :: int32) <s dims s"
    using jN Suc.prems j31 by (simp add: word_sless_alt sint_of_nat_32)
  have ds: "dim_size s (word_of_nat j) = Some (s ! j)"
    using jlen j31 by (rule dim_size_of_nat)
  have next_i: "(word_of_nat j :: int32) + 1 = word_of_nat (Suc j)"
    by simp
  have IH: "right_loop s (word_of_nat (Suc j)) (acc * word_of_int (sint (s ! j)))
       = Some (acc * word_of_int (sint (s ! j))
               * word_of_int (prod_list (map sint (take (N - Suc j) (drop (Suc j) s)))))"
    using Suc.hyps(2) jN Suc.prems by (intro Suc.hyps(1)) simp_all
  have "right_loop s (word_of_nat j) acc
      = right_loop s (word_of_nat (Suc j)) (acc * word_of_int (sint (s ! j)))"
    by (subst right_loop.simps) (simp only: cond ds next_i narrow_mult if_True option.case)
  also note IH
  finally show ?case
    using prod_take_drop_step [OF jN Nlen]
    by (simp add: mult.assoc flip: wi_hom_mult)
qed

lemma axis_of_nat:
  assumes "0 \<le> sint (axis :: int64)"
  shows "axis = word_of_nat (nat (sint axis))"
proof -
  have "word_of_int (sint axis) = (word_of_nat (nat (sint axis)) :: int64)"
    using assms by (rule word_of_int_nat)
  then show ?thesis by simp
qed

lemma collapse_of_nat:
  assumes "sint (dims s) = int N" "k < N"
  shows "collapse s (word_of_nat k)
       = Some (word_of_int (prod_list (map sint (take k s))),
               word_of_int (sint (s ! k)),
               word_of_int (prod_list (map sint (take (N - Suc k) (drop (Suc k) s)))))"
proof -
  have N31: "N < 2147483648"
    using sint_int32_range [of "dims s"] assms by simp
  have Nlen: "N \<le> length s"
    using sint_dims_le_length [of s] assms by simp
  have l: "left_loop s (word_of_nat k) 0 1 = Some (word_of_int (prod_list (map sint (take k s))))"
    using left_loop_prod [of 0 k s 1] assms N31 Nlen by simp
  have "(word_of_nat k :: int64) + 1 = word_of_nat (Suc k)"
    by simp
  then have i0: "(ucast ((word_of_nat k :: int64) + 1) :: int32) = word_of_nat (Suc k)"
    by (simp only: ucast_64_32_of_nat)
  have r: "right_loop s (word_of_nat (Suc k)) 1
         = Some (word_of_int (prod_list (map sint (take (N - Suc k) (drop (Suc k) s)))))"
    using right_loop_prod [of s N "Suc k" 1] assms by simp
  have a: "dim_size s (word_of_nat k) = Some (s ! k)"
    using assms N31 Nlen by (intro dim_size_of_nat) simp_all
  have d: "(ucast (s ! k) :: int32) = word_of_int (sint (s ! k))"
    by (rule ucast_64_32_sint)
  show ?thesis
    by (simp only: collapse_def l r a i0 ucast_64_32_of_nat d option.case)
qed

lemma sint_int64_range:
  "- 9223372036854775808 \<le> sint (w :: int64) \<and> sint w < 9223372036854775808"
  using sint_greater_eq [of w] sint_less [of w] by simp

lemma sint_add_32:
  assumes "- 2147483648 \<le> sint a + sint b" "sint a + sint b < 2147483648"
  shows "sint (a + b :: int32) = sint a + sint b"
proof -
  have "word_of_int (sint a + sint b) = (word_of_int (sint a) + word_of_int (sint b) :: int32)"
    by (simp only: wi_hom_add)
  then have eq: "(word_of_int (sint a + sint b) :: int32) = a + b"
    by simp
  have "sint (word_of_int (sint a + sint b) :: int32) = sint a + sint b"
    using assms by (rule sint_word_of_int_32)
  then show ?thesis by (simp only: eq)
qed

lemma sint_add_64:
  assumes "- 9223372036854775808 \<le> sint a + sint b" "sint a + sint b < 9223372036854775808"
  shows "sint (a + b :: int64) = sint a + sint b"
proof -
  have "word_of_int (sint a + sint b) = (word_of_int (sint a) + word_of_int (sint b) :: int64)"
    by (simp only: wi_hom_add)
  then have eq: "(word_of_int (sint a + sint b) :: int64) = a + b"
    by simp
  have "sint (word_of_int (sint a + sint b) :: int64) = sint a + sint b"
    using assms by (rule sint_word_of_int_64)
  then show ?thesis by (simp only: eq)
qed

lemma sint_effective_axis:
  assumes "0 \<le> sint d"
  shows "sint (effective_axis d a) = spec_resolve (axis_value a) (sint d)"
proof (cases a)
  case (Tidx_int32 x)
  show ?thesis
  proof (cases "sint x < 0")
    case True
    have "sint (d + x) = sint d + sint x"
      using assms True sint_int32_range [of d] sint_int32_range [of x]
      by (intro sint_add_32) simp_all
    then show ?thesis
      using True Tidx_int32 by (simp add: spec_resolve_def word_sless_alt sint_scast_32_64)
  next
    case False
    then show ?thesis
      using Tidx_int32 by (simp add: spec_resolve_def word_sless_alt sint_scast_32_64)
  qed
next
  case (Tidx_int64 x)
  show ?thesis
  proof (cases "sint x < 0")
    case True
    have "sint (scast d + x) = sint (scast d :: int64) + sint x"
      using assms True sint_int32_range [of d] sint_int64_range [of x]
      by (intro sint_add_64) (simp_all add: sint_scast_32_64)
    then show ?thesis
      using True Tidx_int64 by (simp add: spec_resolve_def word_sless_alt sint_scast_32_64)
  next
    case False
    then show ?thesis
      using Tidx_int64 by (simp add: spec_resolve_def word_sless_alt)
  qed
qed

lemma ScanInitHelper_ctor_Inr:
  assumes "ScanInitHelper_ctor ctx attr = Inr h"
  shows "IsScalar (tensor_axis_shape ctx)
       \<and> GetAxis h = effective_axis (dims (input_shape ctx)) (tensor_axis_scalar ctx)
       \<and> FastBoundsCheck (GetAxis h) (dims (input_shape ctx))
       \<and> attr_member h = attr"
  using assms
  by (auto simp: ScanInitHelper_ctor_def SubtleMustCopy_def GetAxis_def Let_def split: if_splits)

lemma ScanInitHelper_ctor_out_of_range:
  assumes "IsScalar (tensor_axis_shape ctx)"
    and "\<not> FastBoundsCheck (effective_axis (dims (input_shape ctx)) (tensor_axis_scalar ctx))
            (dims (input_shape ctx))"
  shows "ScanInitHelper_ctor ctx attr = Inl INVALID_ARGUMENT"
  using assms by (simp add: ScanInitHelper_ctor_def SubtleMustCopy_def)

lemma collapse_validated:
  assumes "FastBoundsCheck axis (dims s)"
  shows "collapse s axis
       = Some (word_of_int (prod_list (map sint (take (nat (sint axis)) s))),
               word_of_int (sint (s ! nat (sint axis))),
               word_of_int (prod_list (map sint
                 (take (nat (sint (dims s)) - Suc (nat (sint axis))) (drop (Suc (nat (sint axis))) s)))))"
proof -
  from assms have nonneg: "0 \<le> sint axis" and lt: "sint axis < sint (dims s)"
    by (simp_all add: FastBoundsCheck_def)
  have N: "sint (dims s) = int (nat (sint (dims s)))"
    using nonneg lt by simp
  have k: "nat (sint axis) < nat (sint (dims s))"
    using nonneg lt by simp
  have "collapse s (word_of_nat (nat (sint axis)))
       = Some (word_of_int (prod_list (map sint (take (nat (sint axis)) s))),
               word_of_int (sint (s ! nat (sint axis))),
               word_of_int (prod_list (map sint
                 (take (nat (sint (dims s)) - Suc (nat (sint axis))) (drop (Suc (nat (sint axis))) s)))))"
    using N k by (rule collapse_of_nat)
  then show ?thesis
    using axis_of_nat [OF nonneg] by simp
qed

lemma collapse_spec:
  assumes "k < length s" "length s < 2147483648"
  shows "collapse s (word_of_nat k)
       = Some (word_of_int (spec_left_size s k), word_of_int (spec_axis_size s k),
               word_of_int (spec_right_size s k))"
proof -
  have "sint (dims s) = int (length s)"
    using assms(2) by (rule sint_dims)
  then show ?thesis
    using collapse_of_nat [of s "length s" k] assms(1)
    by (simp add: spec_left_size_def spec_axis_size_def spec_right_size_def)
qed

lemma total_elements_split:
  assumes "k < length s"
  shows "total_elements s = spec_left_size s k * spec_axis_size s k * spec_right_size s k"
proof -
  have "s = take k s @ s ! k # drop (Suc k) s"
    using assms by (rule id_take_nth_drop)
  then have "map sint s = map sint (take k s) @ sint (s ! k) # map sint (drop (Suc k) s)"
    by (metis list.simps(9) map_append)
  then show ?thesis
    by (simp add: total_elements_def spec_left_size_def spec_axis_size_def spec_right_size_def)
qed


lemma sint_word_of_int_fits: "fits_int32 x \<Longrightarrow> sint (word_of_int x :: int32) = x"
  by (simp add: fits_int32_def sint_word_of_int_32)



lemma non_negative_products:
  assumes "non_negative s" and "k < length s"
  shows "0 \<le> spec_left_size s k" and "0 \<le> spec_axis_size s k" and "0 \<le> spec_right_size s k"
proof -
  have all: "0 \<le> sint d" if "d \<in> set s" for d
    using assms(1) that by (simp add: non_negative_def list_all_iff)
  have "0 \<le> x" if "x \<in> set (map sint (take k s))" for x
    using that all by (auto dest: in_set_takeD)
  then show "0 \<le> spec_left_size s k"
    unfolding spec_left_size_def by (rule prod_list_nonneg)
  show "0 \<le> spec_axis_size s k"
    using assms(2) all by (simp add: spec_axis_size_def)
  have "0 \<le> x" if "x \<in> set (map sint (drop (Suc k) s))" for x
    using that all by (auto dest: in_set_dropD)
  then show "0 \<le> spec_right_size s k"
    unfolding spec_right_size_def by (rule prod_list_nonneg)
qed

lemma DmlScanKernel_ctor_non_negative:
  assumes "collapse s (GetAxis init_helper) = Some (l, a, r)"
    and "0 \<le> sint l" and "0 \<le> sint a" and "0 \<le> sint r"
  shows "DmlScanKernel_ctor scan_functor s init_helper
       = Inr \<lparr>tensor_shape = [1, scast l, scast a, scast r], scan_op = scan_functor, dml_axis = 2,
             axis_direction = (if IsReverse init_helper then DML_AXIS_DIRECTION_DECREASING
                               else DML_AXIS_DIRECTION_INCREASING),
             has_exclusive = IsExclusive init_helper\<rparr>"
  using assms
  by (simp add: DmlScanKernel_ctor_def TensorShape_ctor_def non_negative_def sint_scast_32_64)

section \<open>Validation of the axis input\<close>

text \<open>
  C5. An axis input whose shape is not a scalar makes the initialization fail with
  InvalidArgument, whatever value the axis tensor holds and whatever the operand shape
  and the attributes are; the invocation of either kernel is aborted with that status.
\<close>

theorem non_scalar_axis_invalid_argument:
  assumes "\<not> IsScalar (tensor_axis_shape ctx)"
  shows "ScanInitHelper_ctor ctx attr = Inl INVALID_ARGUMENT
       \<and> DmlKernelWrapper scan_functor ctx attr = Inl (Aborted INVALID_ARGUMENT)"
  using assms by (simp add: ScanInitHelper_ctor_def DmlKernelWrapper_def)

theorem non_scalar_axis_invalid_argument_witness:
  "\<not> IsScalar (tensor_axis_shape
        \<lparr>input_shape = [2, 3, 4], tensor_axis_shape = [1], tensor_axis_scalar = Tidx_int32 1\<rparr>)
   \<and> ScanInitHelper_ctor
        \<lparr>input_shape = [2, 3, 4], tensor_axis_shape = [1], tensor_axis_scalar = Tidx_int32 1\<rparr>
        \<lparr>reverse = False, exclusive = False\<rparr> = Inl INVALID_ARGUMENT
   \<and> DmlKernelWrapper CumsumFunctor
        \<lparr>input_shape = [2, 3, 4], tensor_axis_shape = [1], tensor_axis_scalar = Tidx_int32 1\<rparr>
        \<lparr>reverse = False, exclusive = False\<rparr> = Inl (Aborted INVALID_ARGUMENT)"
proof -
  have h: "\<not> IsScalar (tensor_axis_shape
        \<lparr>input_shape = [2, 3, 4], tensor_axis_shape = [1], tensor_axis_scalar = Tidx_int32 1\<rparr>)"
    by (simp add: IsScalar_def dims_def)
  show ?thesis
    using h non_scalar_axis_invalid_argument [OF h, of "\<lparr>reverse = False, exclusive = False\<rparr>" CumsumFunctor]
    by simp
qed

text \<open>
  C3. For a shape of rank \<open>R\<close> and a raw axis value \<open>a\<close>, at either width of the axis type, the
  axis the constructor computes is \<open>R + a\<close> when \<open>a < 0\<close> and \<open>a\<close> otherwise; for \<open>R \<ge> 1\<close>
  the raw axis \<open>-1\<close> gives \<open>R - 1\<close> and the raw axis \<open>-R\<close> gives \<open>0\<close>. The rank is a C++
  \<^verbatim>\<open>int\<close>, so it is below \<open>2^31\<close>.
\<close>

theorem effective_axis_resolves:
  assumes "length s < 2147483648"
  shows "sint (effective_axis (dims s) a) = spec_resolve (axis_value a) (int (length s))
       \<and> (1 \<le> length s \<and> axis_value a = - 1
            \<longrightarrow> sint (effective_axis (dims s) a) = int (length s) - 1)
       \<and> (1 \<le> length s \<and> axis_value a = - int (length s)
            \<longrightarrow> sint (effective_axis (dims s) a) = 0)"
proof -
  have d: "sint (dims s) = int (length s)"
    using assms by (rule sint_dims)
  then have "sint (effective_axis (dims s) a) = spec_resolve (axis_value a) (int (length s))"
    using sint_effective_axis [of "dims s" a] by simp
  then show ?thesis by (simp add: spec_resolve_def)
qed

theorem effective_axis_resolves_witness:
  "length [2, 3, 4 :: int64] < 2147483648
   \<and> sint (effective_axis (dims [2, 3, 4]) (Tidx_int32 (- 1))) = 2
   \<and> sint (effective_axis (dims [2, 3, 4]) (Tidx_int64 (- 3))) = 0
   \<and> sint (effective_axis (dims [2, 3, 4]) (Tidx_int64 1)) = 1"
proof -
  have h: "length [2, 3, 4 :: int64] < 2147483648" by simp
  show ?thesis
    using effective_axis_resolves [OF h, of "Tidx_int32 (- 1)"]
      effective_axis_resolves [OF h, of "Tidx_int64 (- 3)"]
      effective_axis_resolves [OF h, of "Tidx_int64 1"]
    by (simp add: spec_resolve_def)
qed

text \<open>
  C4, as the code has it. A scalar axis whose effective axis is outside \<open>[0, R)\<close>, such as
  the raw axis \<open>R\<close>, is rejected with the status InvalidArgument, not OutOfRange.
\<close>

theorem out_of_range_axis_counterexample:
  "IsScalar (tensor_axis_shape
      \<lparr>input_shape = [2, 3, 4], tensor_axis_shape = [], tensor_axis_scalar = Tidx_int32 3\<rparr>)
   \<and> spec_resolve (axis_value (Tidx_int32 3)) (int (length [2, 3, 4 :: int64])) = 3
   \<and> ScanInitHelper_ctor
        \<lparr>input_shape = [2, 3, 4], tensor_axis_shape = [], tensor_axis_scalar = Tidx_int32 3\<rparr>
        \<lparr>reverse = False, exclusive = False\<rparr> = Inl INVALID_ARGUMENT
   \<and> ScanInitHelper_ctor
        \<lparr>input_shape = [2, 3, 4], tensor_axis_shape = [], tensor_axis_scalar = Tidx_int32 3\<rparr>
        \<lparr>reverse = False, exclusive = False\<rparr> \<noteq> Inl OUT_OF_RANGE"
  by (simp add: ScanInitHelper_ctor_def IsScalar_def dims_def SubtleMustCopy_def
      FastBoundsCheck_def spec_resolve_def word_sless_alt)

text \<open>
  C4, amended. For every rank \<open>R\<close> and every scalar axis value whose effective axis is not
  in \<open>[0, R)\<close>, the initialization fails with InvalidArgument and the invocation of the
  kernel is aborted with that status.
\<close>

theorem out_of_range_axis_invalid_argument:
  assumes "IsScalar (tensor_axis_shape ctx)"
    and "length (input_shape ctx) < 2147483648"
    and "\<not> (0 \<le> spec_resolve (axis_value (tensor_axis_scalar ctx)) (int (length (input_shape ctx)))
          \<and> spec_resolve (axis_value (tensor_axis_scalar ctx)) (int (length (input_shape ctx)))
              < int (length (input_shape ctx)))"
  shows "ScanInitHelper_ctor ctx attr = Inl INVALID_ARGUMENT
       \<and> DmlKernelWrapper scan_functor ctx attr = Inl (Aborted INVALID_ARGUMENT)"
proof -
  have d: "sint (dims (input_shape ctx)) = int (length (input_shape ctx))"
    using assms(2) by (rule sint_dims)
  then have "sint (effective_axis (dims (input_shape ctx)) (tensor_axis_scalar ctx))
      = spec_resolve (axis_value (tensor_axis_scalar ctx)) (int (length (input_shape ctx)))"
    using sint_effective_axis [of "dims (input_shape ctx)" "tensor_axis_scalar ctx"] by simp
  then have "\<not> FastBoundsCheck (effective_axis (dims (input_shape ctx)) (tensor_axis_scalar ctx))
            (dims (input_shape ctx))"
    using assms(3) d by (simp add: FastBoundsCheck_def)
  then have "ScanInitHelper_ctor ctx attr = Inl INVALID_ARGUMENT"
    using assms(1) by (intro ScanInitHelper_ctor_out_of_range)
  then show ?thesis by (simp add: DmlKernelWrapper_def)
qed

theorem out_of_range_axis_invalid_argument_witness:
  "IsScalar (tensor_axis_shape
      \<lparr>input_shape = [2, 3, 4], tensor_axis_shape = [], tensor_axis_scalar = Tidx_int64 (- 4)\<rparr>)
   \<and> length (input_shape
      \<lparr>input_shape = [2, 3, 4], tensor_axis_shape = [], tensor_axis_scalar = Tidx_int64 (- 4)\<rparr>)
       < 2147483648
   \<and> spec_resolve (axis_value (Tidx_int64 (- 4))) (int (length [2, 3, 4 :: int64])) = - 1
   \<and> ScanInitHelper_ctor
        \<lparr>input_shape = [2, 3, 4], tensor_axis_shape = [], tensor_axis_scalar = Tidx_int64 (- 4)\<rparr>
        \<lparr>reverse = False, exclusive = False\<rparr> = Inl INVALID_ARGUMENT
   \<and> DmlKernelWrapper CumprodFunctor
        \<lparr>input_shape = [2, 3, 4], tensor_axis_shape = [], tensor_axis_scalar = Tidx_int64 (- 4)\<rparr>
        \<lparr>reverse = False, exclusive = False\<rparr> = Inl (Aborted INVALID_ARGUMENT)"
proof -
  let ?ctx = "\<lparr>input_shape = [2, 3, 4], tensor_axis_shape = [],
                tensor_axis_scalar = Tidx_int64 (- 4)\<rparr>"
  have h1: "IsScalar (tensor_axis_shape ?ctx)"
    by (simp add: IsScalar_def dims_def)
  have h2: "length (input_shape ?ctx) < 2147483648"
    by simp
  have r: "spec_resolve (axis_value (Tidx_int64 (- 4))) (int (length [2, 3, 4 :: int64])) = - 1"
    by (simp add: spec_resolve_def)
  then have h3: "\<not> (0 \<le> spec_resolve (axis_value (tensor_axis_scalar ?ctx)) (int (length (input_shape ?ctx)))
          \<and> spec_resolve (axis_value (tensor_axis_scalar ?ctx)) (int (length (input_shape ?ctx)))
              < int (length (input_shape ?ctx)))"
    by simp
  show ?thesis
    using h1 h2 r
      out_of_range_axis_invalid_argument [OF h1 h2 h3,
        of "\<lparr>reverse = False, exclusive = False\<rparr>" CumprodFunctor]
    by simp
qed

text \<open>
  C9. For an operand of rank 0 the initialization fails for every axis input: the range
  \<open>[0, 0)\<close> is empty, so no axis value passes the bounds check, and the invocation is
  aborted with an error status.
\<close>

theorem rank0_operand_always_fails:
  assumes "input_shape ctx = []"
  shows "ScanInitHelper_ctor ctx attr = Inl INVALID_ARGUMENT
       \<and> DmlKernelWrapper scan_functor ctx attr = Inl (Aborted INVALID_ARGUMENT)"
proof -
  have "\<not> FastBoundsCheck axis (dims (input_shape ctx))" for axis
    using assms by (simp add: FastBoundsCheck_def dims_def)
  then have "ScanInitHelper_ctor ctx attr = Inl INVALID_ARGUMENT"
    by (simp add: ScanInitHelper_ctor_def)
  then show ?thesis by (simp add: DmlKernelWrapper_def)
qed

theorem rank0_operand_always_fails_witness:
  "input_shape \<lparr>input_shape = [], tensor_axis_shape = [], tensor_axis_scalar = Tidx_int32 0\<rparr> = []
   \<and> ScanInitHelper_ctor
        \<lparr>input_shape = [], tensor_axis_shape = [], tensor_axis_scalar = Tidx_int32 0\<rparr>
        \<lparr>reverse = False, exclusive = False\<rparr> = Inl INVALID_ARGUMENT
   \<and> DmlKernelWrapper CumsumFunctor
        \<lparr>input_shape = [], tensor_axis_shape = [], tensor_axis_scalar = Tidx_int32 0\<rparr>
        \<lparr>reverse = False, exclusive = False\<rparr> = Inl (Aborted INVALID_ARGUMENT)"
proof -
  have h: "input_shape \<lparr>input_shape = [], tensor_axis_shape = [], tensor_axis_scalar = Tidx_int32 0\<rparr> = []"
    by simp
  show ?thesis
    using h rank0_operand_always_fails [OF h, of "\<lparr>reverse = False, exclusive = False\<rparr>" CumsumFunctor]
    by simp
qed

text \<open>
  C8. When the constructor of the initialization helper succeeds, the axis \<open>GetAxis\<close> returns
  lies in \<open>[0, rank)\<close> of the operand; the collapse then runs without a \<^verbatim>\<open>dim_size\<close> call
  outside the shape, every index in \<open>[0, dims())\<close> being one \<^verbatim>\<open>dim_size\<close> accepts.
\<close>

theorem validated_axis_in_bounds:
  assumes "ScanInitHelper_ctor ctx attr = Inr h"
  shows "0 \<le> sint (GetAxis h) \<and> sint (GetAxis h) < int (length (input_shape ctx))
       \<and> (\<exists>left_dim_size axis_dim_size right_dim_size.
            collapse (input_shape ctx) (GetAxis h)
              = Some (left_dim_size, axis_dim_size, right_dim_size))
       \<and> (\<forall>i :: int32. 0 \<le> sint i \<and> sint i < sint (dims (input_shape ctx))
            \<longrightarrow> dim_size (input_shape ctx) i = Some (input_shape ctx ! nat (sint i)))"
proof -
  have fbc: "FastBoundsCheck (GetAxis h) (dims (input_shape ctx))"
    using ScanInitHelper_ctor_Inr [OF assms] by blast
  then have "0 \<le> sint (GetAxis h)" and "sint (GetAxis h) < sint (dims (input_shape ctx))"
    by (simp_all add: FastBoundsCheck_def)
  moreover have le: "sint (dims (input_shape ctx)) \<le> int (length (input_shape ctx))"
    by (rule sint_dims_le_length)
  moreover have "\<exists>l a r. collapse (input_shape ctx) (GetAxis h) = Some (l, a, r)"
    using collapse_validated [OF fbc] by simp
  moreover have "\<forall>i :: int32. 0 \<le> sint i \<and> sint i < sint (dims (input_shape ctx))
            \<longrightarrow> dim_size (input_shape ctx) i = Some (input_shape ctx ! nat (sint i))"
    using le by (auto simp: dim_size_def)
  ultimately show ?thesis by simp
qed

theorem validated_axis_in_bounds_witness:
  "ScanInitHelper_ctor
      \<lparr>input_shape = [2, 3, 4], tensor_axis_shape = [], tensor_axis_scalar = Tidx_int64 (- 1)\<rparr>
      \<lparr>reverse = False, exclusive = True\<rparr>
    = Inr \<lparr>attr_member = \<lparr>reverse = False, exclusive = True\<rparr>, axis_member = 2\<rparr>
   \<and> sint (GetAxis \<lparr>attr_member = \<lparr>reverse = False, exclusive = True\<rparr>, axis_member = 2\<rparr>) = 2
   \<and> collapse [2, 3, 4] 2 = Some (6, 4, 1)
   \<and> dim_size [2, 3, 4] 2 = Some 4"
proof -
  have h: "ScanInitHelper_ctor
      \<lparr>input_shape = [2, 3, 4], tensor_axis_shape = [], tensor_axis_scalar = Tidx_int64 (- 1)\<rparr>
      \<lparr>reverse = False, exclusive = True\<rparr>
    = Inr \<lparr>attr_member = \<lparr>reverse = False, exclusive = True\<rparr>, axis_member = 2\<rparr>"
    by code_simp
  have c: "collapse [2, 3, 4] 2 = Some (6, 4, 1)"
    by code_simp
  have d: "dim_size [2, 3, 4] 2 = Some 4"
    by code_simp
  show ?thesis
    using h c d validated_axis_in_bounds [OF h] by (simp add: GetAxis_def)
qed

section \<open>The collapse\<close>

text \<open>
  C6, as the code has it. For the shape \<open>[65536, 32768, 1]\<close>, whose sizes are non-negative,
  the initialization accepts the axis 2; the left size \<open>2^31\<close> wraps to the \<^verbatim>\<open>int\<close>
  \<open>-2^31\<close>, and the TensorShape constructor of line 96 rejects it: no collapsed shape is
  produced.
\<close>

theorem collapse_total_counterexample:
  "non_negative [65536, 32768, 1]
   \<and> ScanInitHelper_ctor
        \<lparr>input_shape = [65536, 32768, 1], tensor_axis_shape = [], tensor_axis_scalar = Tidx_int32 2\<rparr>
        \<lparr>reverse = False, exclusive = False\<rparr>
      = Inr \<lparr>attr_member = \<lparr>reverse = False, exclusive = False\<rparr>, axis_member = 2\<rparr>
   \<and> collapse [65536, 32768, 1] 2 = Some (2147483648, 1, 1)
   \<and> sint (2147483648 :: int32) = - 2147483648
   \<and> DmlScanKernel_ctor CumsumFunctor [65536, 32768, 1]
        \<lparr>attr_member = \<lparr>reverse = False, exclusive = False\<rparr>, axis_member = 2\<rparr>
      = Inl NegativeDimSize"
proof -
  have "non_negative [65536, 32768, 1]"
    by (simp add: non_negative_def)
  moreover have "ScanInitHelper_ctor
        \<lparr>input_shape = [65536, 32768, 1], tensor_axis_shape = [], tensor_axis_scalar = Tidx_int32 2\<rparr>
        \<lparr>reverse = False, exclusive = False\<rparr>
      = Inr \<lparr>attr_member = \<lparr>reverse = False, exclusive = False\<rparr>, axis_member = 2\<rparr>"
    by code_simp
  moreover have "collapse [65536, 32768, 1] 2 = Some (2147483648, 1, 1)"
    by code_simp
  moreover have "sint (2147483648 :: int32) = - 2147483648"
    by simp
  moreover have "DmlScanKernel_ctor CumsumFunctor [65536, 32768, 1]
        \<lparr>attr_member = \<lparr>reverse = False, exclusive = False\<rparr>, axis_member = 2\<rparr>
      = Inl NegativeDimSize"
    by code_simp
  ultimately show ?thesis by simp
qed

text \<open>
  C6, amended. With a validated axis, the computation of the three sizes always produces
  its result: both loops terminate and no \<^verbatim>\<open>dim_size\<close> call is out of range. Whenever none
  of the three \<^verbatim>\<open>int\<close> sizes is negative, the kernel constructor builds the
  four-dimensional shape from them.
\<close>

theorem collapse_total:
  assumes "FastBoundsCheck (GetAxis init_helper) (dims original_input_shape)"
  shows "\<exists>left_dim_size axis_dim_size right_dim_size.
           collapse original_input_shape (GetAxis init_helper)
             = Some (left_dim_size, axis_dim_size, right_dim_size)
         \<and> (0 \<le> sint left_dim_size \<and> 0 \<le> sint axis_dim_size \<and> 0 \<le> sint right_dim_size
              \<longrightarrow> (\<exists>k. DmlScanKernel_ctor scan_functor original_input_shape init_helper = Inr k
                     \<and> tensor_shape k
                         = [1, scast left_dim_size, scast axis_dim_size, scast right_dim_size]))"
proof -
  obtain l a r where c: "collapse original_input_shape (GetAxis init_helper) = Some (l, a, r)"
    using collapse_validated [OF assms] by blast
  have "\<exists>k. DmlScanKernel_ctor scan_functor original_input_shape init_helper = Inr k
          \<and> tensor_shape k = [1, scast l, scast a, scast r]"
    if "0 \<le> sint l" "0 \<le> sint a" "0 \<le> sint r"
    using DmlScanKernel_ctor_non_negative [OF c that, of scan_functor] by simp
  then show ?thesis using c by blast
qed

theorem collapse_total_witness:
  "FastBoundsCheck (GetAxis \<lparr>attr_member = \<lparr>reverse = False, exclusive = True\<rparr>, axis_member = 1\<rparr>)
      (dims [2, 3, 4])
   \<and> collapse [2, 3, 4]
        (GetAxis \<lparr>attr_member = \<lparr>reverse = False, exclusive = True\<rparr>, axis_member = 1\<rparr>)
      = Some (2, 3, 4)
   \<and> 0 \<le> sint (2 :: int32) \<and> 0 \<le> sint (3 :: int32) \<and> 0 \<le> sint (4 :: int32)
   \<and> DmlScanKernel_ctor CumprodFunctor [2, 3, 4]
        \<lparr>attr_member = \<lparr>reverse = False, exclusive = True\<rparr>, axis_member = 1\<rparr>
      = Inr \<lparr>tensor_shape = [1, 2, 3, 4], scan_op = CumprodFunctor, dml_axis = 2,
              axis_direction = DML_AXIS_DIRECTION_INCREASING, has_exclusive = True\<rparr>"
proof -
  let ?h = "\<lparr>attr_member = \<lparr>reverse = False, exclusive = True\<rparr>, axis_member = 1\<rparr>"
  have h: "FastBoundsCheck (GetAxis ?h) (dims [2, 3, 4])"
    by (simp add: FastBoundsCheck_def GetAxis_def dims_def)
  have c: "collapse [2, 3, 4] (GetAxis ?h) = Some (2, 3, 4)"
    unfolding GetAxis_def by code_simp
  have k: "DmlScanKernel_ctor CumprodFunctor [2, 3, 4] ?h
      = Inr \<lparr>tensor_shape = [1, 2, 3, 4], scan_op = CumprodFunctor, dml_axis = 2,
              axis_direction = DML_AXIS_DIRECTION_INCREASING, has_exclusive = True\<rparr>"
    by code_simp
  show ?thesis
    using h c k collapse_total [OF h, of CumprodFunctor] by simp
qed



text \<open>
  C1, as the code has it. For the shape \<open>[65536, 65536, 1]\<close> and the valid axis 2 the left
  size wraps to 0, and the product of the three sizes is 0, not the \<open>2^32\<close> elements of the
  shape.
\<close>

theorem collapse_preserves_element_count_counterexample:
  "FastBoundsCheck 2 (dims [65536, 65536, 1])
   \<and> collapse [65536, 65536, 1] 2 = Some (0, 1, 1)
   \<and> total_elements [65536, 65536, 1] = 4294967296
   \<and> sint (0 :: int32) * sint (1 :: int32) * sint (1 :: int32) \<noteq> total_elements [65536, 65536, 1]"
proof -
  have "FastBoundsCheck 2 (dims [65536, 65536, 1])"
    by (simp add: FastBoundsCheck_def dims_def)
  moreover have "collapse [65536, 65536, 1] 2 = Some (0, 1, 1)"
    by code_simp
  moreover have "total_elements [65536, 65536, 1] = 4294967296"
    by (simp add: total_elements_def)
  ultimately show ?thesis by simp
qed

text \<open>
  C1, amended. For every shape of rank \<open>R \<ge> 1\<close> and every axis \<open>k\<close> with \<open>0 \<le> k < R\<close> for
  which the product of the dimensions before \<open>k\<close>, the dimension \<open>k\<close> and the product of the
  dimensions after \<open>k\<close> each fit a signed 32-bit integer, the three sizes of the collapse
  multiply to the element count of the shape.
\<close>

theorem collapse_preserves_element_count:
  assumes "k < length s" and "length s < 2147483648"
    and "fits_int32 (spec_left_size s k)" and "fits_int32 (spec_axis_size s k)"
    and "fits_int32 (spec_right_size s k)"
  shows "\<exists>left_dim_size axis_dim_size right_dim_size.
           collapse s (word_of_nat k) = Some (left_dim_size, axis_dim_size, right_dim_size)
         \<and> sint left_dim_size * sint axis_dim_size * sint right_dim_size = total_elements s"
  using collapse_spec [OF assms(1,2)] total_elements_split [OF assms(1)] assms(3-5)
  by (simp add: sint_word_of_int_fits)

theorem collapse_preserves_element_count_witness:
  "1 < length [2, 3, 4 :: int64] \<and> length [2, 3, 4 :: int64] < 2147483648
   \<and> fits_int32 (spec_left_size [2, 3, 4] 1) \<and> fits_int32 (spec_axis_size [2, 3, 4] 1)
   \<and> fits_int32 (spec_right_size [2, 3, 4] 1)
   \<and> collapse [2, 3, 4] 1 = Some (2, 3, 4)
   \<and> sint (2 :: int32) * sint (3 :: int32) * sint (4 :: int32) = total_elements [2, 3, 4]"
proof -
  have h1: "1 < length [2, 3, 4 :: int64]" by simp
  have h2: "length [2, 3, 4 :: int64] < 2147483648" by simp
  have h3: "fits_int32 (spec_left_size [2, 3, 4] 1)"
    by (simp add: fits_int32_def spec_left_size_def)
  have h4: "fits_int32 (spec_axis_size [2, 3, 4] 1)"
    by (simp add: fits_int32_def spec_axis_size_def)
  have h5: "fits_int32 (spec_right_size [2, 3, 4] 1)"
    by (simp add: fits_int32_def spec_right_size_def)
  have c: "collapse [2, 3, 4] 1 = Some (2, 3, 4)"
    by code_simp
  show ?thesis
    using h1 h2 h3 h4 h5 c collapse_preserves_element_count [OF h1 h2 h3 h4 h5]
    by simp
qed

text \<open>
  C2, as the code has it. For the shape \<open>[65536, 65536, 0]\<close> and the axis 2, which the
  initialization accepts, the kernel builds the shape \<open>[1, 0, 0, 1]\<close>, while the product of
  the dimensions before the axis is \<open>2^32\<close>.
\<close>

theorem collapsed_shape_is_products_counterexample:
  "ScanInitHelper_ctor
      \<lparr>input_shape = [65536, 65536, 0], tensor_axis_shape = [], tensor_axis_scalar = Tidx_int32 2\<rparr>
      \<lparr>reverse = False, exclusive = False\<rparr>
    = Inr \<lparr>attr_member = \<lparr>reverse = False, exclusive = False\<rparr>, axis_member = 2\<rparr>
   \<and> DmlScanKernel_ctor CumsumFunctor [65536, 65536, 0]
        \<lparr>attr_member = \<lparr>reverse = False, exclusive = False\<rparr>, axis_member = 2\<rparr>
      = Inr \<lparr>tensor_shape = [1, 0, 0, 1], scan_op = CumsumFunctor, dml_axis = 2,
              axis_direction = DML_AXIS_DIRECTION_INCREASING, has_exclusive = False\<rparr>
   \<and> spec_left_size [65536, 65536, 0] 2 = 4294967296
   \<and> map sint [1, 0, 0, 1 :: int64]
      \<noteq> [1, spec_left_size [65536, 65536, 0] 2, spec_axis_size [65536, 65536, 0] 2,
           spec_right_size [65536, 65536, 0] 2]"
proof -
  have "ScanInitHelper_ctor
      \<lparr>input_shape = [65536, 65536, 0], tensor_axis_shape = [], tensor_axis_scalar = Tidx_int32 2\<rparr>
      \<lparr>reverse = False, exclusive = False\<rparr>
    = Inr \<lparr>attr_member = \<lparr>reverse = False, exclusive = False\<rparr>, axis_member = 2\<rparr>"
    by code_simp
  moreover have "DmlScanKernel_ctor CumsumFunctor [65536, 65536, 0]
        \<lparr>attr_member = \<lparr>reverse = False, exclusive = False\<rparr>, axis_member = 2\<rparr>
      = Inr \<lparr>tensor_shape = [1, 0, 0, 1], scan_op = CumsumFunctor, dml_axis = 2,
              axis_direction = DML_AXIS_DIRECTION_INCREASING, has_exclusive = False\<rparr>"
    by code_simp
  moreover have "spec_left_size [65536, 65536, 0] 2 = 4294967296"
    by (simp add: spec_left_size_def)
  ultimately show ?thesis by simp
qed

text \<open>
  C2, amended. For every shape, a sequence of non-negative sizes, and valid axis \<open>k\<close> for which the product of the dimensions
  before \<open>k\<close>, the dimension \<open>k\<close> and the product of the dimensions after \<open>k\<close> each fit a
  signed 32-bit integer, the kernel builds exactly the shape
  \<open>[1, left_size, axis_size, right_size]\<close> of these three numbers; the left product is 1 at
  \<open>k = 0\<close> and the right product is 1 at \<open>k = R - 1\<close>.
\<close>

theorem collapsed_shape_is_products:
  assumes "non_negative s"
    and "k < length s" and "length s < 2147483648" and "GetAxis init_helper = word_of_nat k"
    and "fits_int32 (spec_left_size s k)" and "fits_int32 (spec_axis_size s k)"
    and "fits_int32 (spec_right_size s k)"
  shows "\<exists>kern. DmlScanKernel_ctor scan_functor s init_helper = Inr kern
         \<and> map sint (tensor_shape kern)
             = [1, spec_left_size s k, spec_axis_size s k, spec_right_size s k]
         \<and> spec_left_size s 0 = 1 \<and> spec_right_size s (length s - 1) = 1"
proof -
  let ?l = "word_of_int (spec_left_size s k) :: int32"
  let ?a = "word_of_int (spec_axis_size s k) :: int32"
  let ?r = "word_of_int (spec_right_size s k) :: int32"
  have c: "collapse s (GetAxis init_helper) = Some (?l, ?a, ?r)"
    using collapse_spec [OF assms(2,3)] assms(4) by simp
  have l: "sint ?l = spec_left_size s k" and a: "sint ?a = spec_axis_size s k"
    and r: "sint ?r = spec_right_size s k"
    using assms(5-7) by (simp_all add: sint_word_of_int_fits)
  have "0 \<le> sint ?l" "0 \<le> sint ?a" "0 \<le> sint ?r"
    using non_negative_products [OF assms(1,2)] by (simp_all only: l a r)
  then have "DmlScanKernel_ctor scan_functor s init_helper
       = Inr \<lparr>tensor_shape = [1, scast ?l, scast ?a, scast ?r], scan_op = scan_functor, dml_axis = 2,
             axis_direction = (if IsReverse init_helper then DML_AXIS_DIRECTION_DECREASING
                               else DML_AXIS_DIRECTION_INCREASING),
             has_exclusive = IsExclusive init_helper\<rparr>"
    by (rule DmlScanKernel_ctor_non_negative [OF c])
  moreover have "map sint [1 :: int64, scast ?l, scast ?a, scast ?r]
      = [1, spec_left_size s k, spec_axis_size s k, spec_right_size s k]"
    using l a r by (simp add: sint_scast_32_64)
  moreover have "spec_left_size s 0 = 1" "spec_right_size s (length s - 1) = 1"
    using assms(2) by (simp_all add: spec_left_size_def spec_right_size_def)
  ultimately show ?thesis by simp
qed

theorem collapsed_shape_is_products_witness:
  "non_negative [2, 3, 4]
   \<and> 1 < length [2, 3, 4 :: int64] \<and> length [2, 3, 4 :: int64] < 2147483648
   \<and> GetAxis \<lparr>attr_member = \<lparr>reverse = False, exclusive = False\<rparr>, axis_member = 1\<rparr> = word_of_nat 1
   \<and> fits_int32 (spec_left_size [2, 3, 4] 1) \<and> fits_int32 (spec_axis_size [2, 3, 4] 1)
   \<and> fits_int32 (spec_right_size [2, 3, 4] 1)
   \<and> DmlScanKernel_ctor CumsumFunctor [2, 3, 4]
        \<lparr>attr_member = \<lparr>reverse = False, exclusive = False\<rparr>, axis_member = 1\<rparr>
      = Inr \<lparr>tensor_shape = [1, 2, 3, 4], scan_op = CumsumFunctor, dml_axis = 2,
              axis_direction = DML_AXIS_DIRECTION_INCREASING, has_exclusive = False\<rparr>
   \<and> [1, spec_left_size [2, 3, 4] 1, spec_axis_size [2, 3, 4] 1, spec_right_size [2, 3, 4] 1]
      = [1, 2, 3, 4]"
proof -
  let ?h = "\<lparr>attr_member = \<lparr>reverse = False, exclusive = False\<rparr>, axis_member = 1\<rparr>"
  have h0: "non_negative [2, 3, 4]" by (simp add: non_negative_def)
  have h1: "1 < length [2, 3, 4 :: int64]" by simp
  have h2: "length [2, 3, 4 :: int64] < 2147483648" by simp
  have h3: "GetAxis ?h = word_of_nat 1" by (simp add: GetAxis_def)
  have h4: "fits_int32 (spec_left_size [2, 3, 4] 1)"
    by (simp add: fits_int32_def spec_left_size_def)
  have h5: "fits_int32 (spec_axis_size [2, 3, 4] 1)"
    by (simp add: fits_int32_def spec_axis_size_def)
  have h6: "fits_int32 (spec_right_size [2, 3, 4] 1)"
    by (simp add: fits_int32_def spec_right_size_def)
  have k: "DmlScanKernel_ctor CumsumFunctor [2, 3, 4] ?h
      = Inr \<lparr>tensor_shape = [1, 2, 3, 4], scan_op = CumsumFunctor, dml_axis = 2,
              axis_direction = DML_AXIS_DIRECTION_INCREASING, has_exclusive = False\<rparr>"
    by code_simp
  show ?thesis
    using h0 h1 h2 h3 h4 h5 h6 k
      collapsed_shape_is_products [OF h0 h1 h2 h3 h4 h5 h6, of CumsumFunctor]
    by simp
qed

section \<open>The output shape\<close>

text \<open>
  C7. Every invocation of Cumsum or Cumprod that succeeds gives the output the shape of
  the operand, whatever the axis and the attributes \<open>reverse\<close> and \<open>exclusive\<close> are.
\<close>

theorem scan_output_shape_is_input_shape:
  assumes "Cumsum ctx attr = Inr result \<or> Cumprod ctx attr = Inr result"
  shows "output_shape result = input_shape ctx"
  using assms
  by (auto simp: Cumsum_def Cumprod_def DmlKernelWrapper_def GetOutputShapeAsInputShapeHelper_def
      split: sum.splits option.splits)

theorem scan_output_shape_is_input_shape_witness:
  "Cumsum \<lparr>input_shape = [2, 3, 4], tensor_axis_shape = [], tensor_axis_scalar = Tidx_int32 1\<rparr>
      \<lparr>reverse = True, exclusive = False\<rparr>
    = Inr \<lparr>kernel = \<lparr>tensor_shape = [1, 2, 3, 4], scan_op = CumsumFunctor, dml_axis = 2,
                axis_direction = DML_AXIS_DIRECTION_DECREASING, has_exclusive = False\<rparr>,
            output_shape = [2, 3, 4]\<rparr>
   \<and> output_shape \<lparr>kernel = \<lparr>tensor_shape = [1, 2, 3, 4], scan_op = CumsumFunctor, dml_axis = 2,
                axis_direction = DML_AXIS_DIRECTION_DECREASING, has_exclusive = False\<rparr>,
            output_shape = [2, 3, 4]\<rparr>
     = input_shape \<lparr>input_shape = [2, 3, 4], tensor_axis_shape = [], tensor_axis_scalar = Tidx_int32 1\<rparr>"
proof -
  have h: "Cumsum \<lparr>input_shape = [2, 3, 4], tensor_axis_shape = [], tensor_axis_scalar = Tidx_int32 1\<rparr>
      \<lparr>reverse = True, exclusive = False\<rparr>
    = Inr \<lparr>kernel = \<lparr>tensor_shape = [1, 2, 3, 4], scan_op = CumsumFunctor, dml_axis = 2,
                axis_direction = DML_AXIS_DIRECTION_DECREASING, has_exclusive = False\<rparr>,
            output_shape = [2, 3, 4]\<rparr>"
    by code_simp
  show ?thesis
    using h scan_output_shape_is_input_shape [OF disjI1 [OF h]] by simp
qed

end
